theory Spec2Isabelle
  imports Main
begin

section \<open>Flag words of set rows\<close>

text \<open>
  \<^verbatim>\<open>_int_to_bool_list(num)\<close> formats \<open>num\<close> with Python's format specification
  \<^verbatim>\<open>'04b'\<close> (binary digits, sign-aware zero padding to a minimum width of four
  characters), reverses the string and compares every character with \<^verbatim>\<open>'1'\<close>.
\<close>

fun bin_digits :: "nat \<Rightarrow> string" where
  "bin_digits n =
     (if n < 2 then [if n = 0 then CHR ''0'' else CHR ''1'']
      else bin_digits (n div 2) @ [if n mod 2 = 0 then CHR ''0'' else CHR ''1''])"

declare bin_digits.simps [simp del]

definition format_04b :: "int \<Rightarrow> string" where
  "format_04b num =
     (let sign = (if num < 0 then ''-'' else '''');
          ds = bin_digits (nat \<bar>num\<bar>)
      in sign @ replicate (4 - length sign - length ds) (CHR ''0'') @ ds)"

definition int_to_bool_list :: "int \<Rightarrow> bool list" where
  "int_to_bool_list num = map (\<lambda>x. x = CHR ''1'') (rev (format_04b num))"

section \<open>Errors\<close>

text \<open>
  Every exception the two functions can raise is a value. \<open>Unmodelled\<close> marks the
  inputs on which this development does not follow the libraries: arithmetic on arrays
  whose elements are not integers, names that are paths, and name lookups in a node that
  is not a group. No statement below concludes \<open>Unmodelled\<close>.
\<close>

datatype error =
    KeyError string
  | KeyErrorNum nat
  | IndexError
  | ValueError
  | TypeError
  | RuntimeError string
  | AssertionError
  | OverflowError
  | Unmodelled string

definition and_then :: "error + 'a \<Rightarrow> ('a \<Rightarrow> error + 'b) \<Rightarrow> error + 'b" where
  "and_then m f = (case m of Inl e \<Rightarrow> Inl e | Inr x \<Rightarrow> f x)"

section \<open>Arrays\<close>

text \<open>
  A numpy array is its element type name, its shape and its elements in row-major
  order. Integer elements are unbounded integers; elements of any other numeric type
  (floating point in practice) are values of the type parameter, which the two functions
  only store and load; \<open>Texts\<close> is the string array of the provenance record.
\<close>

datatype 'f elems = Ints "int list" | Others "'f list" | Texts "string list"

datatype 'f ndarray = NDArray (dtype: string) (shape: "nat list") (entries: "'f elems")

text \<open>\<^verbatim>\<open>len(a)\<close>: the first dimension; a zero-dimensional array has no length.\<close>

definition np_len :: "'f ndarray \<Rightarrow> error + nat" where
  "np_len a = (case shape a of [] \<Rightarrow> Inl TypeError | n # _ \<Rightarrow> Inr n)"

text \<open>\<^verbatim>\<open>a.shape[1]\<close>: indexing the shape tuple.\<close>

definition np_shape1 :: "'f ndarray \<Rightarrow> error + nat" where
  "np_shape1 a = (case shape a of n # w # _ \<Rightarrow> Inr w | _ \<Rightarrow> Inl IndexError)"

text \<open>\<^verbatim>\<open>a + c\<close> and \<^verbatim>\<open>a - c\<close> for an integer \<open>c\<close>, elementwise.\<close>

definition np_add :: "'f ndarray \<Rightarrow> int \<Rightarrow> error + 'f ndarray" where
  "np_add a c =
     (case entries a of
        Ints xs \<Rightarrow> Inr (NDArray (dtype a) (shape a) (Ints (map (\<lambda>x. x + c) xs)))
      | _ \<Rightarrow> Inl (Unmodelled ''arithmetic on non-integer elements''))"

definition np_sub :: "'f ndarray \<Rightarrow> int \<Rightarrow> error + 'f ndarray" where
  "np_sub a c =
     (case entries a of
        Ints xs \<Rightarrow> Inr (NDArray (dtype a) (shape a) (Ints (map (\<lambda>x. x - c) xs)))
      | _ \<Rightarrow> Inl (Unmodelled ''arithmetic on non-integer elements''))"

text \<open>
  \<^verbatim>\<open>numpy.empty(n, dtype=int)\<close> allocates without initialising: the elements are
  whatever the memory held. The memory is a parameter \<open>mem\<close>, read per allocation
  (named by the key the array is stored under) and per position.
\<close>

definition numpy_empty :: "(string \<Rightarrow> nat \<Rightarrow> int) \<Rightarrow> string \<Rightarrow> nat \<Rightarrow> int list" where
  "numpy_empty mem key n = map (mem key) [0..<n]"

text \<open>
  Python's slice bounds: a negative bound counts from the end, and both bounds are
  clipped to the length. \<open>py_slice xs start stop\<close> is \<^verbatim>\<open>xs[start:stop]\<close>,
  \<open>stride2\<close> is \<^verbatim>\<open>ys[::2]\<close>, so that \<^verbatim>\<open>xs[start:stop:2]\<close> is
  \<open>stride2 (py_slice xs start stop)\<close>.
\<close>

definition norm_index :: "int \<Rightarrow> nat \<Rightarrow> nat" where
  "norm_index i n = (if i < 0 then nat (max 0 (i + int n)) else min (nat i) n)"

definition py_slice :: "'a list \<Rightarrow> int \<Rightarrow> int \<Rightarrow> 'a list" where
  "py_slice xs start stop =
     (let n = length xs; a = norm_index start n; b = norm_index stop n
      in take (b - a) (drop a xs))"

fun stride2 :: "'a list \<Rightarrow> 'a list" where
  "stride2 [] = []"
| "stride2 [x] = [x]"
| "stride2 (x # y # xs) = x # stride2 xs"

text \<open>\<^verbatim>\<open>arr[i0:i1] = v\<close>: every position of the slice takes the scalar \<open>v\<close>.\<close>

definition slice_assign :: "int list \<Rightarrow> int \<Rightarrow> int \<Rightarrow> int \<Rightarrow> int list" where
  "slice_assign arr i0 i1 v =
     (let n = length arr; a = norm_index i0 n; b = norm_index i1 n
      in map (\<lambda>j. if a \<le> j \<and> j < b then v else arr ! j) [0..<n])"

text \<open>
  \<^verbatim>\<open>arr[idx] = v\<close> for an integer index array: an index in \<open>[-n, 0)\<close> counts from
  the end, an index outside \<open>[-n, n)\<close> raises IndexError.
\<close>

definition fancy_index :: "nat \<Rightarrow> int \<Rightarrow> error + nat" where
  "fancy_index n i =
     (if 0 \<le> i \<and> i < int n then Inr (nat i)
      else if - int n \<le> i \<and> i < 0 then Inr (nat (i + int n))
      else Inl IndexError)"

fun fancy_assign :: "int list \<Rightarrow> int list \<Rightarrow> int \<Rightarrow> error + int list" where
  "fancy_assign arr [] v = Inr arr"
| "fancy_assign arr (i # idx) v =
     and_then (fancy_index (length arr) i) (\<lambda>j. fancy_assign (arr[j := v]) idx v)"

text \<open>\<^verbatim>\<open>row[i]\<close> for a one-dimensional row and a constant \<open>i \<ge> 0\<close>.\<close>

definition row_get :: "int list \<Rightarrow> nat \<Rightarrow> error + int" where
  "row_get row i = (if i < length row then Inr (row ! i) else Inl IndexError)"

text \<open>A dictionary in insertion order; \<^verbatim>\<open>d[k] = v\<close> replaces or appends.\<close>

fun dict_set :: "('k \<times> 'v) list \<Rightarrow> 'k \<Rightarrow> 'v \<Rightarrow> ('k \<times> 'v) list" where
  "dict_set [] k v = [(k, v)]"
| "dict_set ((k', v') # d) k v =
     (if k' = k then (k, v) # d else (k', v') # dict_set d k v)"

section \<open>The hierarchical container\<close>

text \<open>
  The storage layer (h5py) is an external collaborator; the container is modelled as the
  tree it holds. A node is a group (attributes and named children, in creation order), a
  dataset (attributes, stored element type, stored shape, elements in row-major order) or
  a committed datatype. An attribute is an integer together with the type it is stored
  with. A name is a single path component.
\<close>

datatype h5dtype =
    Plain string
  | SubArray string nat
  | EnumInt "(string \<times> int) list"

type_synonym attrs = "(string \<times> h5dtype \<times> int) list"

datatype 'f h5node =
    Group attrs "(string \<times> 'f h5node) list"
  | Dataset attrs h5dtype "nat list" "'f elems"
  | NamedType h5dtype

definition simple_name :: "string \<Rightarrow> bool" where
  "simple_name s = (s \<noteq> [] \<and> s \<noteq> ''.'' \<and> CHR ''/'' \<notin> set s)"

text \<open>\<^verbatim>\<open>node[name]\<close>, \<^verbatim>\<open>name in node\<close> and \<^verbatim>\<open>node.items()\<close> on a group.\<close>

definition h5_get :: "'f h5node \<Rightarrow> string \<Rightarrow> error + 'f h5node" where
  "h5_get g name =
     (case g of
        Group _ children \<Rightarrow>
          (case map_of children name of None \<Rightarrow> Inl (KeyError name) | Some n \<Rightarrow> Inr n)
      | _ \<Rightarrow> Inl (Unmodelled ''name lookup in a node that is not a group''))"

definition h5_contains :: "'f h5node \<Rightarrow> string \<Rightarrow> error + bool" where
  "h5_contains g name =
     (case g of
        Group _ children \<Rightarrow> Inr (name \<in> set (map fst children))
      | _ \<Rightarrow> Inl (Unmodelled ''name lookup in a node that is not a group''))"

definition h5_items :: "'f h5node \<Rightarrow> error + (string \<times> 'f h5node) list" where
  "h5_items g =
     (case g of
        Group _ children \<Rightarrow> Inr children
      | _ \<Rightarrow> Inl (Unmodelled ''name lookup in a node that is not a group''))"

text \<open>
  \<^verbatim>\<open>dataset[()]\<close> reads the whole dataset as an array. A dataset whose stored
  element type is a \<open>k\<close>-tuple reads back with \<open>k\<close> as an additional last dimension.
  On a group or a committed datatype the expression raises.
\<close>

definition h5_read :: "'f h5node \<Rightarrow> error + 'f ndarray" where
  "h5_read d =
     (case d of
        Dataset _ (Plain t) sh es \<Rightarrow> Inr (NDArray t sh es)
      | Dataset _ (SubArray t k) sh es \<Rightarrow> Inr (NDArray t (sh @ [k]) es)
      | Dataset _ (EnumInt _) sh es \<Rightarrow> Inr (NDArray ''int32'' sh es)
      | _ \<Rightarrow> Inl TypeError)"

text \<open>\<^verbatim>\<open>node.attrs[name]\<close>, as an integer.\<close>

definition h5_attr :: "'f h5node \<Rightarrow> string \<Rightarrow> error + int" where
  "h5_attr d name =
     (case map_of (case d of Group a _ \<Rightarrow> a | Dataset a _ _ _ \<Rightarrow> a | NamedType _ \<Rightarrow> []) name of
        None \<Rightarrow> Inl (KeyError name)
      | Some (_, v) \<Rightarrow> Inr v)"

text \<open>
  Creating a child under a user-supplied name: the name must be new in the group
  (h5py raises ValueError otherwise).
\<close>

definition h5_create ::
  "(string \<times> 'f h5node) list \<Rightarrow> string \<Rightarrow> 'f h5node \<Rightarrow> error + (string \<times> 'f h5node) list" where
  "h5_create children name n =
     (if \<not> simple_name name then Inl (Unmodelled ''a name that is a path'')
      else if name \<in> set (map fst children) then Inl ValueError
      else Inr (children @ [(name, n)]))"

text \<open>
  \<^verbatim>\<open>attrs.create(name, value)\<close> stores a Python integer as a signed 64-bit value;
  with \<^verbatim>\<open>dtype='u8'\<close> it is converted to an unsigned 64-bit value, which raises
  OverflowError outside the type's range.
\<close>

definition attr_native :: "int \<Rightarrow> error + h5dtype \<times> int" where
  "attr_native v =
     (if - (2 ^ 63) \<le> v \<and> v < 2 ^ 63 then Inr (Plain ''int64'', v)
      else Inl (Unmodelled ''an integer attribute beyond 64 bits''))"

definition attr_u8 :: "int \<Rightarrow> error + h5dtype \<times> int" where
  "attr_u8 v =
     (if 0 \<le> v \<and> v < 2 ^ 64 then Inr (Plain ''uint64'', v) else Inl OverflowError)"

section \<open>The writer\<close>

definition elem_dt :: h5dtype where
  "elem_dt = EnumInt
     [(''Edge'', 1), (''Tri'', 2), (''Quad'', 3), (''Polygon'', 4), (''Tet'', 5),
      (''Pyramid'', 6), (''Prism'', 7), (''Knife'', 8), (''Hex'', 9), (''Polyhedron'', 10)]"

text \<open>The table \<^verbatim>\<open>h5m_type\<close>: number of nodes per cell to block name and element type.\<close>

definition h5m_type :: "nat \<Rightarrow> (string \<times> int) option" where
  "h5m_type = map_of [(2, (''Edge2'', 1)), (3, (''Tri3'', 2)), (4, (''Tet4'', 5))]"

definition h5m_lookup :: "nat \<Rightarrow> error + string \<times> int" where
  "h5m_lookup w = (case h5m_type w of None \<Rightarrow> Inl (KeyErrorNum w) | Some t \<Rightarrow> Inr t)"

text \<open>
  One point tag: a one-dimensional array is stored as it is; otherwise the shape is
  unpacked as \<^verbatim>\<open>n, k = data.shape\<close> (ValueError unless it has exactly two entries)
  and the data goes into a dataset of \<open>n\<close> entries whose element type is a \<open>k\<close>-tuple.
\<close>

definition point_tag_dataset :: "'f ndarray \<Rightarrow> error + h5dtype \<times> 'f h5node" where
  "point_tag_dataset data =
     (if length (shape data) = 1
      then Inr (Plain (dtype data), Dataset [] (Plain (dtype data)) (shape data) (entries data))
      else (case shape data of
              [n, k] \<Rightarrow>
                Inr (SubArray (dtype data) k, Dataset [] (SubArray (dtype data) k) [n] (entries data))
            | _ \<Rightarrow> Inl ValueError))"

text \<open>
  The loop over \<^verbatim>\<open>point_data.items()\<close>: \<open>tags\<close> are the children of the nodes' tag
  group so far, \<open>gtags\<close> those of the global tag registry.
\<close>

fun write_point_tags ::
  "(string \<times> 'f ndarray) list \<Rightarrow> (string \<times> 'f h5node) list \<Rightarrow> (string \<times> 'f h5node) list \<Rightarrow>
   error + (string \<times> 'f h5node) list \<times> (string \<times> 'f h5node) list" where
  "write_point_tags [] tags gtags = Inr (tags, gtags)"
| "write_point_tags ((key, data) # rest) tags gtags =
     and_then (point_tag_dataset data) (\<lambda>(dt, ds).
     and_then (h5_create tags key ds) (\<lambda>tags'.
     and_then (h5_create gtags key
         (Group [(''class'', (Plain ''int64'', 2))] [(''type'', NamedType dt)])) (\<lambda>gtags'.
     write_point_tags rest tags' gtags')))"

text \<open>\<^verbatim>\<open>if point_data is not None\<close>: the children added to the nodes group, and the registry.\<close>

definition write_point_data ::
  "(string \<times> 'f ndarray) list option \<Rightarrow>
   error + (string \<times> 'f h5node) list \<times> (string \<times> 'f h5node) list" where
  "write_point_data point_data =
     (case point_data of
        None \<Rightarrow> Inr ([], [])
      | Some pd \<Rightarrow>
          and_then (write_point_tags pd [] []) (\<lambda>(tags, gtags).
          Inr ([(''tags'', Group [] tags)], gtags)))"

text \<open>The loop over \<^verbatim>\<open>cell_data.items()\<close>: every value is stored as it is.\<close>

fun write_cell_tags ::
  "(string \<times> 'f ndarray) list \<Rightarrow> (string \<times> 'f h5node) list \<Rightarrow> error + (string \<times> 'f h5node) list" where
  "write_cell_tags [] tags = Inr tags"
| "write_cell_tags ((key, val) # rest) tags =
     and_then (h5_create tags key (Dataset [] (Plain (dtype val)) (shape val) (entries val)))
       (\<lambda>tags'. write_cell_tags rest tags')"

text \<open>\<^verbatim>\<open>if cell_data\<close>: neither \<^verbatim>\<open>None\<close> nor an empty dictionary.\<close>

definition write_cell_data ::
  "(string \<times> 'f ndarray) list option \<Rightarrow> error + (string \<times> 'f h5node) list" where
  "write_cell_data cell_data =
     (case cell_data of
        None \<Rightarrow> Inr []
      | Some [] \<Rightarrow> Inr []
      | Some cd \<Rightarrow>
          and_then (write_cell_tags cd []) (\<lambda>tags. Inr [(''tags'', Group [] tags)]))"

text \<open>
  \<open>write_h5m\<close> (the source's \<^verbatim>\<open>write\<close>) returns the container it has built, or the first exception. The library
  version and the time stamp of the provenance record are parameters; \<^verbatim>\<open>field_data\<close>
  is never looked at and is left out.
\<close>

definition write_h5m ::
  "string \<Rightarrow> string \<Rightarrow> 'f ndarray \<Rightarrow> 'f ndarray \<Rightarrow> (string \<times> 'f ndarray) list option \<Rightarrow>
   (string \<times> 'f ndarray) list option \<Rightarrow> error + 'f h5node" where
  "write_h5m version now points cells point_data cell_data =
     and_then (attr_native 1) (\<lambda>coords_start.
     and_then (np_len points) (\<lambda>n_points.
     and_then (write_point_data point_data) (\<lambda>(node_tags, tstt_tags).
     and_then (np_shape1 cells) (\<lambda>width.
     and_then (h5m_lookup width) (\<lambda>(name, code).
     and_then (np_add cells 1) (\<lambda>cells1.
     and_then (attr_native (1 + int n_points)) (\<lambda>conn_start.
     and_then (np_len cells) (\<lambda>n_cells.
     and_then (write_cell_data cell_data) (\<lambda>elem_tags.
     and_then (attr_u8 (1 + int n_points + int n_cells)) (\<lambda>max_id.
       Inr (Group []
         [(''tstt'', Group [(''max_id'', max_id)]
            [(''nodes'', Group []
                ((''coordinates'',
                  Dataset [(''start_id'', coords_start)]
                    (Plain (dtype points)) (shape points) (entries points)) # node_tags)),
             (''tags'', Group [] tstt_tags),
             (''elements'', Group []
                [(name, Group [(''element_type'', (elem_dt, code))]
                   ((''connectivity'',
                     Dataset [(''start_id'', conn_start)]
                       (Plain (dtype cells1)) (shape cells1) (entries cells1)) # elem_tags))]),
             (''elemtypes'', NamedType elem_dt),
             (''history'',
              Dataset [] (Plain ''str'') [3] (Texts [''meshio.h5m_io'', version, now])),
             (''sets'', Group [] [(''tags'', Group [] [])])])])))))))))))"

section \<open>The reader\<close>

text \<open>The five values \<open>read\<close> returns.\<close>

record 'f mesh =
  m_points :: "'f ndarray"
  m_cells :: "'f ndarray"
  m_point_data :: "(string \<times> 'f ndarray) list"
  m_cell_data :: "(string \<times> 'f ndarray) list"
  m_field_data :: "(string \<times> 'f ndarray) list"

text \<open>
  The loop \<^verbatim>\<open>for name, dataset in group.items(): d[name] = dataset[()]\<close>, used for
  the point tags and for the cell tags.
\<close>

fun read_tags ::
  "(string \<times> 'f h5node) list \<Rightarrow> (string \<times> 'f ndarray) list \<Rightarrow> error + (string \<times> 'f ndarray) list" where
  "read_tags [] d = Inr d"
| "read_tags ((name, dataset) # rest) d =
     and_then (h5_read dataset) (\<lambda>a. read_tags rest (dict_set d name a))"

text \<open>\<^verbatim>\<open>if 'tags' in g: ...\<close> for a group \<open>g\<close>, starting from an empty dictionary.\<close>

definition read_tag_group :: "'f h5node \<Rightarrow> error + (string \<times> 'f ndarray) list" where
  "read_tag_group g =
     and_then (h5_contains g ''tags'') (\<lambda>has_tags.
     if has_tags
     then and_then (h5_get g ''tags'') (\<lambda>tags.
          and_then (h5_items tags) (\<lambda>items. read_tags items []))
     else Inr [])"

text \<open>The element block: \<^verbatim>\<open>Tri3\<close> if the elements group has it, else \<^verbatim>\<open>Tet4\<close>.\<close>

definition select_block :: "'f h5node \<Rightarrow> error + 'f h5node" where
  "select_block elements =
     and_then (h5_contains elements ''Tri3'') (\<lambda>has_tri.
     if has_tri then h5_get elements ''Tri3''
     else and_then (h5_contains elements ''Tet4'') (\<lambda>has_tet.
          if has_tet then h5_get elements ''Tet4''
          else Inl (RuntimeError ''Need Tri3s or Tet4s.'')))"

text \<open>
  The pairs of a range-compressed row: \<^verbatim>\<open>zip(contents[end:stop:2], contents[end+1:stop:2])\<close>
  with \<open>stop = row[0] + 1\<close>.
\<close>

definition row_runs :: "int list \<Rightarrow> int \<Rightarrow> int \<Rightarrow> (int \<times> int) list" where
  "row_runs contents end stop =
     zip (stride2 (py_slice contents end stop)) (stride2 (py_slice contents (end + 1) stop))"

text \<open>
  The loop over the pairs of a range-compressed row. \<open>v\<close> is \<^verbatim>\<open>value[k]\<close>, which
  the source evaluates at every assignment, after the range test.
\<close>

fun fill_runs ::
  "int list \<Rightarrow> (int \<times> int) list \<Rightarrow> int \<Rightarrow> int \<Rightarrow> error + int \<Rightarrow> error + int list" where
  "fill_runs arr [] cell_start_gid cell_end_gid v = Inr arr"
| "fill_runs arr ((start_gid, len) # rest) cell_start_gid cell_end_gid v =
     (let end_gid = start_gid + len - 1 in
      if start_gid \<ge> cell_start_gid \<and> end_gid \<le> cell_end_gid
      then and_then v (\<lambda>x.
           fill_runs (slice_assign arr (start_gid - cell_start_gid) (end_gid - cell_start_gid + 1) x)
             rest cell_start_gid cell_end_gid v)
      else Inl (RuntimeError []))"

text \<open>
  \<^verbatim>\<open>value[k]\<close> for a set tag: entry \<open>k\<close> of a one-dimensional integer dataset
  (h5py raises for an index beyond the dataset).
\<close>

definition tag_value :: "'f h5node \<Rightarrow> nat \<Rightarrow> error + int" where
  "tag_value val k =
     (case val of
        Dataset _ (Plain _) [n] (Ints xs) \<Rightarrow>
          (if k < n \<and> k < length xs then Inr (xs ! k) else Inl IndexError)
      | _ \<Rightarrow> Inl (Unmodelled ''a set tag that is not a one-dimensional integer dataset''))"

text \<open>
  One row of the sets list, with the cursor \<open>end\<close> before the row: the new array and
  the cursor after the row.
\<close>

definition decode_row ::
  "int list \<Rightarrow> int \<Rightarrow> int \<Rightarrow> error + int \<Rightarrow> int list \<Rightarrow> int \<Rightarrow> int list \<Rightarrow>
   error + int list \<times> int" where
  "decode_row contents cell_start_gid cell_end_gid v row end arr =
     and_then (row_get row 3) (\<lambda>flags.
     let bits = int_to_bool_list flags;
         is_range_compressed = bits ! 3
     in and_then (row_get row 0) (\<lambda>row0.
        and_then
          (if is_range_compressed
           then fill_runs arr (row_runs contents end (row0 + 1)) cell_start_gid cell_end_gid v
           else and_then v (\<lambda>x.
                fancy_assign arr
                  (map (\<lambda>gid. gid - cell_start_gid) (py_slice contents end (row0 + 1))) x))
          (\<lambda>arr'. Inr (arr', row0 + 1))))"

text \<open>The loop \<^verbatim>\<open>for k, row in enumerate(sets_list)\<close>, from row \<open>k\<close> on.\<close>

fun decode_rows ::
  "int list \<Rightarrow> int \<Rightarrow> int \<Rightarrow> (nat \<Rightarrow> error + int) \<Rightarrow> nat \<Rightarrow> int list list \<Rightarrow> int \<Rightarrow> int list \<Rightarrow>
   error + int list \<times> int" where
  "decode_rows contents cell_start_gid cell_end_gid val k [] end arr = Inr (arr, end)"
| "decode_rows contents cell_start_gid cell_end_gid val k (row # rows) end arr =
     and_then (decode_row contents cell_start_gid cell_end_gid (val k) row end arr)
       (\<lambda>(arr', end'). decode_rows contents cell_start_gid cell_end_gid val (Suc k) rows end' arr')"

text \<open>
  The contents of the sets group as integers: \<open>contents\<close> is one-dimensional, the rows
  of a two-dimensional \<open>list\<close> are its consecutive chunks.
\<close>

definition int_vector :: "'f ndarray \<Rightarrow> error + int list" where
  "int_vector a =
     (case (shape a, entries a) of
        ([n], Ints xs) \<Rightarrow> Inr xs
      | _ \<Rightarrow> Inl (Unmodelled ''not a one-dimensional integer array''))"

definition int_rows :: "'f ndarray \<Rightarrow> error + int list list" where
  "int_rows a =
     (case (shape a, entries a) of
        ([r, c], Ints xs) \<Rightarrow> Inr (map (\<lambda>i. take c (drop (i * c) xs)) [0..<r])
      | _ \<Rightarrow> Inl (Unmodelled ''not a two-dimensional integer array''))"

text \<open>
  The loop \<^verbatim>\<open>for key, value in sets_tags.items()\<close>: a fresh array per tag, stored under
  \<^verbatim>\<open>'set::' + key\<close>, the cursor starting at 0.
\<close>

fun decode_sets ::
  "(string \<Rightarrow> nat \<Rightarrow> int) \<Rightarrow> (string \<times> 'f h5node) list \<Rightarrow> 'f ndarray \<Rightarrow> 'f ndarray \<Rightarrow> int \<Rightarrow> int \<Rightarrow>
   'f ndarray \<Rightarrow> (string \<times> 'f ndarray) list \<Rightarrow> error + (string \<times> 'f ndarray) list" where
  "decode_sets mem [] sets_contents sets_list cell_start_gid cell_end_gid cells cell_data =
     Inr cell_data"
| "decode_sets mem ((key, val) # rest) sets_contents sets_list cell_start_gid cell_end_gid
     cells cell_data =
     (let mod_key = ''set::'' @ key in
      and_then (np_len cells) (\<lambda>n.
      and_then (int_rows sets_list) (\<lambda>rows.
      and_then (int_vector sets_contents) (\<lambda>contents.
      and_then (decode_rows contents cell_start_gid cell_end_gid (tag_value val) 0 rows 0
                  (numpy_empty mem mod_key n)) (\<lambda>(arr, end).
      decode_sets mem rest sets_contents sets_list cell_start_gid cell_end_gid cells
        (dict_set cell_data mod_key (NDArray ''int64'' [n] (Ints arr))))))))"

text \<open>
  \<^verbatim>\<open>assert all(cell_gids == range(cell_start_gid, cell_end_gid + 1))\<close> for a
  one-dimensional integer array: the comparison is elementwise against a range of the
  same length.
\<close>

definition gids_contiguous :: "'f ndarray \<Rightarrow> int \<Rightarrow> int \<Rightarrow> error + bool" where
  "gids_contiguous cell_gids cell_start_gid cell_end_gid =
     (case (shape cell_gids, entries cell_gids) of
        ([n], Ints xs) \<Rightarrow> Inr (xs = [cell_start_gid..cell_end_gid])
      | _ \<Rightarrow> Inl (Unmodelled ''not a one-dimensional integer array''))"

text \<open>The body of \<^verbatim>\<open>if 'sets' in dset and 'contents' in dset['sets']\<close>.\<close>

definition read_sets ::
  "(string \<Rightarrow> nat \<Rightarrow> int) \<Rightarrow> 'f h5node \<Rightarrow> 'f h5node \<Rightarrow> 'f h5node \<Rightarrow> 'f ndarray \<Rightarrow>
   (string \<times> 'f ndarray) list \<Rightarrow> error + (string \<times> 'f ndarray) list" where
  "read_sets mem sets elems conn cells cell_data =
     and_then (h5_get sets ''contents'') (\<lambda>contents_node.
     and_then (h5_read contents_node) (\<lambda>sets_contents.
     and_then (h5_get sets ''list'') (\<lambda>list_node.
     and_then (h5_read list_node) (\<lambda>sets_list.
     and_then (h5_get sets ''tags'') (\<lambda>sets_tags.
     and_then (h5_attr conn ''start_id'') (\<lambda>cell_start_gid.
     and_then (h5_get elems ''tags'') (\<lambda>elem_tags.
     and_then (h5_get elem_tags ''GLOBAL_ID'') (\<lambda>gid_node.
     and_then (h5_read gid_node) (\<lambda>global_id.
     and_then (np_add global_id cell_start_gid) (\<lambda>cell_gids.
     and_then (np_len cell_gids) (\<lambda>n_gids.
     let cell_end_gid = cell_start_gid + int n_gids - 1 in
     and_then (gids_contiguous cell_gids cell_start_gid cell_end_gid) (\<lambda>ok.
     if \<not> ok then Inl AssertionError
     else and_then (h5_items sets_tags) (\<lambda>items.
          decode_sets mem items sets_contents sets_list cell_start_gid cell_end_gid
            cells cell_data)))))))))))))"

text \<open>
  What \<open>read\<close> does once the element block \<open>elems\<close> is chosen: connectivity, cell
  tags, sets.
\<close>

definition read_block ::
  "(string \<Rightarrow> nat \<Rightarrow> int) \<Rightarrow> 'f h5node \<Rightarrow> 'f ndarray \<Rightarrow> (string \<times> 'f ndarray) list \<Rightarrow> 'f h5node \<Rightarrow>
   error + 'f mesh" where
  "read_block mem dset points point_data elems =
     and_then (h5_get elems ''connectivity'') (\<lambda>conn.
     and_then (h5_read conn) (\<lambda>conn_all.
     and_then (np_sub conn_all 1) (\<lambda>cells.
     and_then (read_tag_group elems) (\<lambda>cell_data.
     and_then (h5_contains dset ''sets'') (\<lambda>has_sets.
     and_then (if has_sets
               then and_then (h5_get dset ''sets'') (\<lambda>sets. h5_contains sets ''contents'')
               else Inr False) (\<lambda>has_contents.
     and_then (if has_contents
               then and_then (h5_get dset ''sets'') (\<lambda>sets.
                    read_sets mem sets elems conn cells cell_data)
               else Inr cell_data) (\<lambda>cell_data'.
     Inr \<lparr>m_points = points, m_cells = cells, m_point_data = point_data,
          m_cell_data = cell_data', m_field_data = []\<rparr>)))))))"

text \<open>\<open>read\<close> on an opened container \<open>f\<close>; \<open>mem\<close> is the uninitialised memory.\<close>

definition read :: "(string \<Rightarrow> nat \<Rightarrow> int) \<Rightarrow> 'f h5node \<Rightarrow> error + 'f mesh" where
  "read mem f =
     and_then (h5_get f ''tstt'') (\<lambda>dset.
     and_then (h5_get dset ''nodes'') (\<lambda>nodes.
     and_then (h5_get nodes ''coordinates'') (\<lambda>coordinates.
     and_then (h5_read coordinates) (\<lambda>points.
     and_then (read_tag_group nodes) (\<lambda>point_data.
     and_then (h5_get dset ''elements'') (\<lambda>elements.
     and_then (select_block elements) (\<lambda>elems.
     read_block mem dset points point_data elems)))))))"

section \<open>Inputs of the writer\<close>

text \<open>
  The items of an optional dictionary argument (\<^verbatim>\<open>None\<close> has none). The keys of a
  Python dictionary are distinct; as tag names they are single path components. A point
  tag is a per-point array of scalars (one dimension) or of \<open>k\<close>-tuples (two dimensions).
\<close>

definition dict_items :: "('k \<times> 'v) list option \<Rightarrow> ('k \<times> 'v) list" where
  "dict_items d = (case d of None \<Rightarrow> [] | Some kvs \<Rightarrow> kvs)"

definition valid_tags :: "(string \<times> 'f ndarray) list \<Rightarrow> bool" where
  "valid_tags d = (distinct (map fst d) \<and> (\<forall>k \<in> set (map fst d). simple_name k))"

definition point_tags_ok :: "(string \<times> 'f ndarray) list \<Rightarrow> bool" where
  "point_tags_ok d =
     (valid_tags d \<and> (\<forall>a \<in> set (map snd d). length (shape a) = 1 \<or> length (shape a) = 2))"

section \<open>Example inputs\<close>

text \<open>
  A mesh of three points and one triangle with a scalar and a 2-tuple point tag and one
  cell tag; the coordinates and tag values stand for floating-point numbers. The same
  points with one edge, and with one cell of five nodes.
\<close>

definition ex_points :: "nat ndarray" where
  "ex_points = NDArray ''float64'' [3, 3] (Others [0, 0, 0, 1, 0, 0, 0, 1, 0])"

definition ex_tri :: "nat ndarray" where
  "ex_tri = NDArray ''int64'' [1, 3] (Ints [0, 1, 2])"

definition ex_edge :: "nat ndarray" where
  "ex_edge = NDArray ''int64'' [1, 2] (Ints [0, 1])"

definition ex_five :: "nat ndarray" where
  "ex_five = NDArray ''int64'' [1, 5] (Ints [0, 1, 2, 0, 1])"

definition ex_point_data :: "(string \<times> nat ndarray) list" where
  "ex_point_data =
     [(''a'', NDArray ''float64'' [3] (Others [7, 8, 9])),
      (''b'', NDArray ''float64'' [3, 2] (Others [1, 2, 3, 4, 5, 6]))]"

definition ex_cell_data :: "(string \<times> nat ndarray) list" where
  "ex_cell_data = [(''c'', NDArray ''int64'' [1] (Ints [5]))]"

definition mem0 :: "string \<Rightarrow> nat \<Rightarrow> int" where
  "mem0 key j = 0"

section \<open>Containers with sets\<close>






section \<open>Example containers\<close>

text \<open>
  Three points (global IDs 1 to 3) and a block of four triangles (global IDs 4 to 7)
  whose \<^verbatim>\<open>GLOBAL_ID\<close> tag is \<open>0, 1, 2, 3\<close>; a block of one tetrahedron.
\<close>

definition ex_coordinates :: "nat h5node" where
  "ex_coordinates =
     Dataset [(''start_id'', (Plain ''int64'', 1))] (Plain ''float64'') [3, 3]
       (Others [0, 0, 0, 1, 0, 0, 0, 1, 0])"

definition ex_nodes :: "nat h5node" where
  "ex_nodes = Group [] [(''coordinates'', ex_coordinates)]"

definition ex_block :: "int list \<Rightarrow> nat h5node" where
  "ex_block gids = Group [(''element_type'', (elem_dt, 2))]
     [(''connectivity'',
       Dataset [(''start_id'', (Plain ''int64'', 4))] (Plain ''int64'') [4, 3]
         (Ints [1, 2, 3, 1, 2, 3, 1, 2, 3, 1, 2, 3])),
      (''tags'', Group []
         [(''GLOBAL_ID'', Dataset [] (Plain ''int64'') [length gids] (Ints gids))])]"

definition ex_tri_block :: "nat h5node" where
  "ex_tri_block = ex_block [0, 1, 2, 3]"

definition ex_tet_block :: "nat h5node" where
  "ex_tet_block = Group [(''element_type'', (elem_dt, 5))]
     [(''connectivity'',
       Dataset [(''start_id'', (Plain ''int64'', 4))] (Plain ''int64'') [1, 4]
         (Ints [1, 2, 3, 1]))]"

text \<open>A container that has both blocks, \<^verbatim>\<open>Tet4\<close> created first.\<close>

definition ex_both_tstt :: "nat h5node" where
  "ex_both_tstt = Group []
     [(''nodes'', ex_nodes),
      (''elements'', Group [] [(''Tet4'', ex_tet_block), (''Tri3'', ex_tri_block)])]"

definition ex_both :: "nat h5node" where
  "ex_both = Group [] [(''tstt'', ex_both_tstt)]"

text \<open>
  A container with sets, given by the \<^verbatim>\<open>GLOBAL_ID\<close> tag of the block, the contents,
  the list (four columns) and the values of the one set tag \<^verbatim>\<open>P\<close>.
\<close>

definition ex_with_sets :: "int list \<Rightarrow> int list \<Rightarrow> int list \<Rightarrow> int list \<Rightarrow> nat h5node" where
  "ex_with_sets gids contents list vals = Group []
     [(''tstt'', Group []
        [(''nodes'', ex_nodes),
         (''elements'', Group [] [(''Tri3'', ex_block gids)]),
         (''sets'', Group []
            [(''contents'', Dataset [] (Plain ''int64'') [length contents] (Ints contents)),
             (''list'', Dataset [] (Plain ''int64'') [length list div 4, 4] (Ints list)),
             (''tags'', Group []
                [(''P'', Dataset [] (Plain ''int64'') [length vals] (Ints vals))])])])]"


text \<open>One set: an explicit row listing global ID 3, which is the third point.\<close>

definition ex_point_set :: "nat h5node" where
  "ex_point_set = ex_with_sets [0, 1, 2, 3] [3] [0, 0, 0, 2] [9]"

text \<open>One set: a range-compressed row with the run of length 1 from global ID 3.\<close>

definition ex_point_run :: "nat h5node" where
  "ex_point_run = ex_with_sets [0, 1, 2, 3] [3, 1] [1, 0, 0, 10] [9]"



section \<open>Flag decoding\<close>

lemma length_bin_digits: "0 < length (bin_digits n)"
  by (subst bin_digits.simps) simp

lemma length_format_04b: "4 \<le> length (format_04b num)"
  using length_bin_digits [of "nat \<bar>num\<bar>"] by (simp add: format_04b_def Let_def)

lemma length_int_to_bool_list: "4 \<le> length (int_to_bool_list num)"
  using length_format_04b [of num] by (simp add: int_to_bool_list_def)

lemma int_to_bool_list_nibble:
  assumes "0 \<le> num" and "num < 16"
  shows "int_to_bool_list num = [bit num 0, bit num 1, bit num 2, bit num 3]"
proof -
  from assms have "num \<in> {0, 1, 2, 3, 4, 5, 6, 7, 8, 9, 10, 11, 12, 13, 14, 15}"
    by simp presburger
  then show ?thesis
    apply (elim insertE emptyE)
    apply (simp_all add: int_to_bool_list_def format_04b_def bin_digits.simps bit_numeral_simps)
    apply (simp_all add: numeral_2_eq_2 numeral_3_eq_3)
    done
qed

text \<open>
  C9. For every integer \<open>num\<close> with \<open>0 \<le> num < 16\<close>, \<open>_int_to_bool_list(num)\<close> is a
  list of exactly four booleans, and its element at position \<open>i\<close> (for \<open>i\<close> from 0 to 3)
  is true if and only if bit \<open>i\<close> of \<open>num\<close> is set, least significant bit first. Element 3
  is the flag \<open>is_range_compressed\<close> that \<open>decode_row\<close> reads.
\<close>

theorem int_to_bool_list_bits:
  assumes "0 \<le> num" and "num < 16"
  shows "length (int_to_bool_list num) = 4 \<and>
         (\<forall>i<4. int_to_bool_list num ! i = bit num i)"
proof -
  have e: "int_to_bool_list num = [bit num 0, bit num 1, bit num 2, bit num 3]"
    using assms by (rule int_to_bool_list_nibble)
  have "i = 0 \<or> i = 1 \<or> i = 2 \<or> i = 3" if "i < 4" for i :: nat
    using that by arith
  then have "[bit num 0, bit num 1, bit num 2, bit num 3] ! i = bit num i" if "i < 4" for i
    using that
    by (metis nth_Cons_0 One_nat_def nth_Cons_Suc numeral_2_eq_2 numeral_3_eq_3)
  then show ?thesis unfolding e by simp
qed

theorem int_to_bool_list_bits_witness:
  "(0::int) \<le> 9 \<and> (9::int) < 16 \<and> length (int_to_bool_list 9) = 4 \<and>
   int_to_bool_list 9 ! 0 = bit (9::int) 0 \<and> int_to_bool_list 9 ! 1 = bit (9::int) 1 \<and>
   int_to_bool_list 9 ! 2 = bit (9::int) 2 \<and> int_to_bool_list 9 ! 3 = bit (9::int) 3 \<and>
   int_to_bool_list 9 ! 3"
proof -
  have h: "(0::int) \<le> 9" "(9::int) < 16" by simp_all
  from int_to_bool_list_bits [OF h]
  have "length (int_to_bool_list 9) = 4" and a: "\<forall>i<4. int_to_bool_list 9 ! i = bit (9::int) i"
    by blast+
  moreover from a have "int_to_bool_list 9 ! 0 = bit (9::int) 0" "int_to_bool_list 9 ! 1 = bit (9::int) 1"
    "int_to_bool_list 9 ! 2 = bit (9::int) 2" "int_to_bool_list 9 ! 3 = bit (9::int) 3"
    by simp_all
  moreover have "bit (9::int) 3" by (simp add: bit_numeral_simps)
  ultimately show ?thesis by simp
qed

section \<open>Writing and reading back\<close>

lemma and_then_Inr [simp]: "and_then (Inr x) f = f x"
  by (simp add: and_then_def)

lemma and_then_Inl [simp]: "and_then (Inl e) f = Inl e"
  by (simp add: and_then_def)

lemma and_then_eq_Inr: "and_then m f = Inr y \<longleftrightarrow> (\<exists>x. m = Inr x \<and> f x = Inr y)"
  by (cases m) simp_all

lemma and_then_eq_Inl:
  "and_then m f = Inl e \<longleftrightarrow> m = Inl e \<or> (\<exists>x. m = Inr x \<and> f x = Inl e)"
  by (cases m) auto

lemma dict_set_fresh: "k \<notin> set (map fst d) \<Longrightarrow> dict_set d k v = d @ [(k, v)]"
  by (induction d) auto


lemma h5_read_point_tag:
  assumes "length (shape a) = 1 \<or> length (shape a) = 2"
  shows "\<exists>dt ds. point_tag_dataset a = Inr (dt, ds) \<and> h5_read ds = Inr a"
proof (cases a)
  case (NDArray t sh es)
  from assms NDArray consider n where "sh = [n]" | n k where "sh = [n, k]"
    by (cases sh; cases "tl sh"; cases "tl (tl sh)") auto
  then show ?thesis
    by cases (simp_all add: NDArray point_tag_dataset_def h5_read_def)
qed

lemma write_point_tags_read:
  assumes "distinct (map fst pd)"
    and "\<forall>k \<in> set (map fst pd). simple_name k"
    and "\<forall>a \<in> set (map snd pd). length (shape a) = 1 \<or> length (shape a) = 2"
    and "set (map fst pd) \<inter> set (map fst tags) = {}"
    and "set (map fst pd) \<inter> set (map fst gtags) = {}"
    and "map fst tags = map fst d"
  shows "\<exists>tags' gtags'. write_point_tags pd tags gtags = Inr (tags @ tags', gtags @ gtags') \<and>
           map fst tags' = map fst pd \<and>
           read_tags tags' d = Inr (d @ pd)"
  using assms
proof (induction pd arbitrary: tags gtags d)
  case Nil
  then show ?case by simp
next
  case (Cons p pd)
  obtain key a where p: "p = (key, a)" by (cases p)
  from Cons.prems p obtain dt ds where ds: "point_tag_dataset a = Inr (dt, ds)" "h5_read ds = Inr a"
    using h5_read_point_tag [of a] by auto
  let ?g = "Group [(''class'', (Plain ''int64'', 2))] [(''type'', NamedType dt)]"
  have c1: "h5_create tags key ds = Inr (tags @ [(key, ds)])"
    using Cons.prems p by (auto simp: h5_create_def)
  have c2: "h5_create gtags key ?g = Inr (gtags @ [(key, ?g)])"
    using Cons.prems p by (auto simp: h5_create_def)
  have fresh: "key \<notin> set (map fst d)"
    using Cons.prems p by auto
  have "\<exists>tags' gtags'. write_point_tags pd (tags @ [(key, ds)]) (gtags @ [(key, ?g)]) =
           Inr ((tags @ [(key, ds)]) @ tags', (gtags @ [(key, ?g)]) @ gtags') \<and>
           map fst tags' = map fst pd \<and>
           read_tags tags' (d @ [(key, a)]) = Inr ((d @ [(key, a)]) @ pd)"
    using Cons.prems p by (intro Cons.IH) auto
  then obtain tags' gtags' where
    w: "write_point_tags pd (tags @ [(key, ds)]) (gtags @ [(key, ?g)]) =
           Inr ((tags @ [(key, ds)]) @ tags', (gtags @ [(key, ?g)]) @ gtags')"
    and f: "map fst tags' = map fst pd"
    and r: "read_tags tags' (d @ [(key, a)]) = Inr ((d @ [(key, a)]) @ pd)"
    by blast
  show ?case
    apply (rule exI [of _ "(key, ds) # tags'"])
    apply (rule exI [of _ "(key, ?g) # gtags'"])
    using w f r ds c1 c2 fresh by (simp add: p dict_set_fresh)
qed

lemma write_cell_tags_read:
  assumes "distinct (map fst cd)"
    and "\<forall>k \<in> set (map fst cd). simple_name k"
    and "set (map fst cd) \<inter> set (map fst tags) = {}"
    and "map fst tags = map fst d"
  shows "\<exists>tags'. write_cell_tags cd tags = Inr (tags @ tags') \<and>
           map fst tags' = map fst cd \<and>
           read_tags tags' d = Inr (d @ cd)"
  using assms
proof (induction cd arbitrary: tags d)
  case Nil
  then show ?case by simp
next
  case (Cons p cd)
  obtain key a where p: "p = (key, a)" by (cases p)
  let ?ds = "Dataset [] (Plain (dtype a)) (shape a) (entries a)"
  have rd: "h5_read ?ds = Inr a" by (cases a) (simp add: h5_read_def)
  have c1: "h5_create tags key ?ds = Inr (tags @ [(key, ?ds)])"
    using Cons.prems p by (auto simp: h5_create_def)
  have fresh: "key \<notin> set (map fst d)"
    using Cons.prems p by auto
  have "\<exists>tags'. write_cell_tags cd (tags @ [(key, ?ds)]) = Inr ((tags @ [(key, ?ds)]) @ tags') \<and>
           map fst tags' = map fst cd \<and>
           read_tags tags' (d @ [(key, a)]) = Inr ((d @ [(key, a)]) @ cd)"
    using Cons.prems p by (intro Cons.IH) auto
  then obtain tags' where
    w: "write_cell_tags cd (tags @ [(key, ?ds)]) = Inr ((tags @ [(key, ?ds)]) @ tags')"
    and f: "map fst tags' = map fst cd"
    and r: "read_tags tags' (d @ [(key, a)]) = Inr ((d @ [(key, a)]) @ cd)"
    by blast
  show ?case
    apply (rule exI [of _ "(key, ?ds) # tags'"])
    using w f r rd c1 fresh by (simp add: p dict_set_fresh)
qed

lemma write_point_data_ok:
  assumes "point_tags_ok (dict_items point_data)"
  shows "\<exists>node_tags tstt_tags. write_point_data point_data = Inr (node_tags, tstt_tags) \<and>
           (\<forall>a x. read_tag_group (Group a ((''coordinates'', x) # node_tags)) =
              Inr (dict_items point_data))"
proof (cases point_data)
  case None
  then show ?thesis
    by (simp add: write_point_data_def dict_items_def read_tag_group_def h5_contains_def)
next
  case (Some pd)
  with assms have ok: "distinct (map fst pd)" "\<forall>k \<in> set (map fst pd). simple_name k"
    "\<forall>a \<in> set (map snd pd). length (shape a) = 1 \<or> length (shape a) = 2"
    by (simp_all add: point_tags_ok_def valid_tags_def dict_items_def)
  from write_point_tags_read [OF ok, of "[]" "[]" "[]"]
  obtain tags' gtags' where w: "write_point_tags pd [] [] = Inr (tags', gtags')"
    and r: "read_tags tags' [] = Inr pd"
    by auto
  show ?thesis
    using w r Some
    by (simp add: write_point_data_def dict_items_def read_tag_group_def h5_contains_def
        h5_get_def h5_items_def)
qed

lemma write_cell_data_ok:
  assumes "valid_tags (dict_items cell_data)"
  shows "\<exists>elem_tags. write_cell_data cell_data = Inr elem_tags \<and>
           (\<forall>a x. read_tag_group (Group a ((''connectivity'', x) # elem_tags)) =
              Inr (dict_items cell_data))"
proof (cases "dict_items cell_data = []")
  case True
  then have "cell_data = None \<or> cell_data = Some []"
    by (cases cell_data) (simp_all add: dict_items_def)
  then show ?thesis
    by (auto simp: write_cell_data_def dict_items_def read_tag_group_def h5_contains_def)
next
  case False
  then obtain c cd where Some: "cell_data = Some (c # cd)"
    by (cases cell_data; cases "dict_items cell_data") (simp_all add: dict_items_def)
  with assms have ok: "distinct (map fst (c # cd))" "\<forall>k \<in> set (map fst (c # cd)). simple_name k"
    by (simp_all add: valid_tags_def dict_items_def)
  from write_cell_tags_read [OF ok, of "[]" "[]"]
  obtain tags' where w: "write_cell_tags (c # cd) [] = Inr tags'"
    and r: "read_tags tags' [] = Inr (c # cd)"
    by auto
  show ?thesis
    using w r Some
    by (simp add: write_cell_data_def dict_items_def read_tag_group_def h5_contains_def
        h5_get_def h5_items_def)
qed

lemma write_h5m_result:
  assumes "shape points = N # ps"
    and "shape cells = M # w # cs" and "entries cells = Ints xs"
    and "h5m_type w = Some (name, code)"
    and "point_tags_ok (dict_items point_data)"
    and "valid_tags (dict_items cell_data)"
    and "1 + int N + int M < 2 ^ 63"
  shows "\<exists>node_tags tstt_tags elem_tags.
    write_h5m version now points cells point_data cell_data =
      Inr (Group []
         [(''tstt'', Group [(''max_id'', (Plain ''uint64'', 1 + int N + int M))]
            [(''nodes'', Group []
                ((''coordinates'',
                  Dataset [(''start_id'', (Plain ''int64'', 1))]
                    (Plain (dtype points)) (shape points) (entries points)) # node_tags)),
             (''tags'', Group [] tstt_tags),
             (''elements'', Group []
                [(name, Group [(''element_type'', (elem_dt, code))]
                   ((''connectivity'',
                     Dataset [(''start_id'', (Plain ''int64'', 1 + int N))]
                       (Plain (dtype cells)) (shape cells) (Ints (map (\<lambda>x. x + 1) xs))) # elem_tags))]),
             (''elemtypes'', NamedType elem_dt),
             (''history'',
              Dataset [] (Plain ''str'') [3] (Texts [''meshio.h5m_io'', version, now])),
             (''sets'', Group [] [(''tags'', Group [] [])])])]) \<and>
    (\<forall>a x. read_tag_group (Group a ((''coordinates'', x) # node_tags)) =
              Inr (dict_items point_data)) \<and>
    (\<forall>a x. read_tag_group (Group a ((''connectivity'', x) # elem_tags)) =
              Inr (dict_items cell_data))"
proof -
  from write_point_data_ok [OF assms(5)] obtain node_tags tstt_tags where
    p: "write_point_data point_data = Inr (node_tags, tstt_tags)"
    "\<forall>a x. read_tag_group (Group a ((''coordinates'', x) # node_tags)) = Inr (dict_items point_data)"
    by blast
  from write_cell_data_ok [OF assms(6)] obtain elem_tags where
    c: "write_cell_data cell_data = Inr elem_tags"
    "\<forall>a x. read_tag_group (Group a ((''connectivity'', x) # elem_tags)) = Inr (dict_items cell_data)"
    by blast
  have a1: "attr_native 1 = Inr (Plain ''int64'', 1)" by (simp add: attr_native_def)
  have a2: "attr_native (1 + int N) = Inr (Plain ''int64'', 1 + int N)"
    using assms(7) by (simp add: attr_native_def)
  have a3: "attr_u8 (1 + int N + int M) = Inr (Plain ''uint64'', 1 + int N + int M)"
    using assms(7) by (simp add: attr_u8_def)
  have w: "write_h5m version now points cells point_data cell_data = Inr (Group []
         [(''tstt'', Group [(''max_id'', (Plain ''uint64'', 1 + int N + int M))]
            [(''nodes'', Group []
                ((''coordinates'',
                  Dataset [(''start_id'', (Plain ''int64'', 1))]
                    (Plain (dtype points)) (shape points) (entries points)) # node_tags)),
             (''tags'', Group [] tstt_tags),
             (''elements'', Group []
                [(name, Group [(''element_type'', (elem_dt, code))]
                   ((''connectivity'',
                     Dataset [(''start_id'', (Plain ''int64'', 1 + int N))]
                       (Plain (dtype cells)) (shape cells) (Ints (map (\<lambda>x. x + 1) xs))) # elem_tags))]),
             (''elemtypes'', NamedType elem_dt),
             (''history'',
              Dataset [] (Plain ''str'') [3] (Texts [''meshio.h5m_io'', version, now])),
             (''sets'', Group [] [(''tags'', Group [] [])])])])"
    unfolding write_h5m_def
    by (simp add: a1 a2 a3 p c assms(1-4) np_len_def np_shape1_def h5m_lookup_def np_add_def)
  show ?thesis
    using w p(2) c(2) by blast
qed

lemma h5m_type_cases:
  "h5m_type w = Some (name, code) \<longleftrightarrow>
     (w = 2 \<and> name = ''Edge2'' \<and> code = 1) \<or> (w = 3 \<and> name = ''Tri3'' \<and> code = 2) \<or>
     (w = 4 \<and> name = ''Tet4'' \<and> code = 5)"
  by (auto simp: h5m_type_def)

lemma h5m_type_None: "h5m_type w = None \<longleftrightarrow> w \<noteq> 2 \<and> w \<noteq> 3 \<and> w \<noteq> 4"
  by (simp add: h5m_type_def)

lemma read_written:
  assumes "name = ''Tri3'' \<or> name = ''Tet4''"
    and "\<forall>a x. read_tag_group (Group a ((''coordinates'', x) # node_tags)) = Inr pd"
    and "\<forall>a x. read_tag_group (Group a ((''connectivity'', x) # elem_tags)) = Inr cd"
  shows "read mem (Group []
         [(''tstt'', Group ta
            [(''nodes'', Group [] ((''coordinates'', Dataset ca (Plain pt) psh pes) # node_tags)),
             (''tags'', g),
             (''elements'', Group []
                [(name, Group ea
                   ((''connectivity'',
                     Dataset cna (Plain ct) csh (Ints (map (\<lambda>x. x + 1) xs))) # elem_tags))]),
             (''elemtypes'', et),
             (''history'', h),
             (''sets'', Group [] [(''tags'', Group [] [])])])]) =
      Inr \<lparr>m_points = NDArray pt psh pes, m_cells = NDArray ct csh (Ints xs),
           m_point_data = pd, m_cell_data = cd, m_field_data = []\<rparr>"
  using assms(1)
  by (auto simp: read_def select_block_def read_block_def h5_get_def h5_contains_def
      h5_read_def np_sub_def assms(2,3) comp_def)

lemma read_edge:
  assumes "\<forall>a x. read_tag_group (Group a ((''coordinates'', x) # node_tags)) = Inr pd"
  shows "read mem (Group []
         [(''tstt'', Group ta
            [(''nodes'', Group [] ((''coordinates'', Dataset ca (Plain pt) psh pes) # node_tags)),
             (''tags'', g),
             (''elements'', Group [] [(''Edge2'', b)]),
             (''elemtypes'', et),
             (''history'', h),
             (''sets'', s)])]) =
      Inl (RuntimeError ''Need Tri3s or Tet4s.'')"
  by (simp add: read_def select_block_def h5_get_def h5_contains_def h5_read_def assms)

text \<open>
  C1. For every mesh whose cells array has row width 3 or 4 (an integer array), and any
  point tags that are per-point arrays of scalars or of \<open>k\<close>-tuples and any cell tags
  (none at all included), writing to a fresh container succeeds, and reading that
  container returns the points, the cells (the shifts by \<open>+1\<close> and \<open>-1\<close> cancel) and
  every tag array as they were given: the returned dictionaries have the same entries
  and the same number of them, so they are empty when no tags were written.
  \<open>N\<close> and \<open>M\<close> are the numbers of points and cells; array lengths fit 63 bits.
\<close>

theorem write_read_roundtrip:
  assumes "shape points = N # ps"
    and "shape cells = M # w # cs" and "w = 3 \<or> w = 4" and "entries cells = Ints xs"
    and "point_tags_ok (dict_items point_data)"
    and "valid_tags (dict_items cell_data)"
    and "1 + int N + int M < 2 ^ 63"
  shows "\<exists>f r. write_h5m version now points cells point_data cell_data = Inr f \<and>
           read mem f = Inr r \<and> m_points r = points \<and> m_cells r = cells \<and>
           map_of (m_point_data r) = map_of (dict_items point_data) \<and>
           length (m_point_data r) = length (dict_items point_data) \<and>
           map_of (m_cell_data r) = map_of (dict_items cell_data) \<and>
           length (m_cell_data r) = length (dict_items cell_data) \<and>
           m_field_data r = []"
proof -
  from assms(3) obtain name code where t: "h5m_type w = Some (name, code)"
    and n: "name = ''Tri3'' \<or> name = ''Tet4''"
    by (auto simp: h5m_type_def)
  from write_h5m_result [OF assms(1,2,4) t assms(5,6,7), of version now]
  obtain node_tags tstt_tags elem_tags where
    w: "write_h5m version now points cells point_data cell_data =
      Inr (Group []
         [(''tstt'', Group [(''max_id'', (Plain ''uint64'', 1 + int N + int M))]
            [(''nodes'', Group []
                ((''coordinates'',
                  Dataset [(''start_id'', (Plain ''int64'', 1))]
                    (Plain (dtype points)) (shape points) (entries points)) # node_tags)),
             (''tags'', Group [] tstt_tags),
             (''elements'', Group []
                [(name, Group [(''element_type'', (elem_dt, code))]
                   ((''connectivity'',
                     Dataset [(''start_id'', (Plain ''int64'', 1 + int N))]
                       (Plain (dtype cells)) (shape cells) (Ints (map (\<lambda>x. x + 1) xs))) # elem_tags))]),
             (''elemtypes'', NamedType elem_dt),
             (''history'',
              Dataset [] (Plain ''str'') [3] (Texts [''meshio.h5m_io'', version, now])),
             (''sets'', Group [] [(''tags'', Group [] [])])])])"
    and p: "\<forall>a x. read_tag_group (Group a ((''coordinates'', x) # node_tags)) =
              Inr (dict_items point_data)"
    and c: "\<forall>a x. read_tag_group (Group a ((''connectivity'', x) # elem_tags)) =
              Inr (dict_items cell_data)"
    by blast
  have pts: "NDArray (dtype points) (shape points) (entries points) = points"
    by (cases points) simp
  have cls: "NDArray (dtype cells) (shape cells) (Ints xs) = cells"
    using assms(4) by (cases cells) simp
  show ?thesis
    unfolding w by (simp add: read_written [OF n p c] pts cls)
qed

lemma ex_point_data_ok: "point_tags_ok (dict_items (Some ex_point_data))"
  by (simp add: point_tags_ok_def valid_tags_def dict_items_def ex_point_data_def simple_name_def)

lemma ex_cell_data_ok: "valid_tags (dict_items (Some ex_cell_data))"
  by (simp add: valid_tags_def dict_items_def ex_cell_data_def simple_name_def)

lemma no_tags_ok: "point_tags_ok (dict_items None)" "valid_tags (dict_items None)"
  by (simp_all add: point_tags_ok_def valid_tags_def dict_items_def)

theorem write_read_roundtrip_witness:
  "shape ex_points = 3 # [3] \<and> shape ex_tri = 1 # 3 # [] \<and> entries ex_tri = Ints [0, 1, 2] \<and>
   point_tags_ok (dict_items (Some ex_point_data)) \<and>
   valid_tags (dict_items (Some ex_cell_data)) \<and>
   (\<exists>f r. write_h5m ''1.0'' ''now'' ex_points ex_tri (Some ex_point_data) (Some ex_cell_data) = Inr f \<and>
           read mem0 f = Inr r \<and> m_points r = ex_points \<and> m_cells r = ex_tri \<and>
           map_of (m_point_data r) = map_of ex_point_data \<and>
           length (m_point_data r) = 2 \<and>
           map_of (m_cell_data r) = map_of ex_cell_data \<and>
           length (m_cell_data r) = 1 \<and>
           m_field_data r = [])"
proof -
  have h: "shape ex_points = 3 # [3]" "shape ex_tri = 1 # 3 # []" "(3::nat) = 3 \<or> (3::nat) = 4"
    "entries ex_tri = Ints [0, 1, 2]"
    by (simp_all add: ex_points_def ex_tri_def)
  have b: "1 + int 3 + int 1 < 2 ^ 63" by simp
  have l: "length ex_point_data = 2" "length ex_cell_data = 1"
    "dict_items (Some ex_point_data) = ex_point_data" "dict_items (Some ex_cell_data) = ex_cell_data"
    by (simp_all add: dict_items_def ex_point_data_def ex_cell_data_def)
  from write_read_roundtrip [OF h ex_point_data_ok ex_cell_data_ok b, of "''1.0''" "''now''" mem0]
  have "\<exists>f r. write_h5m ''1.0'' ''now'' ex_points ex_tri (Some ex_point_data) (Some ex_cell_data) = Inr f \<and>
           read mem0 f = Inr r \<and> m_points r = ex_points \<and> m_cells r = ex_tri \<and>
           map_of (m_point_data r) = map_of ex_point_data \<and>
           length (m_point_data r) = 2 \<and>
           map_of (m_cell_data r) = map_of ex_cell_data \<and>
           length (m_cell_data r) = 1 \<and>
           m_field_data r = []"
    by (simp only: l)
  with h(1,2,4) ex_point_data_ok ex_cell_data_ok show ?thesis by blast
qed

text \<open>
  C2. For every write of \<open>N\<close> points and \<open>M\<close> cells, the coordinates dataset has the
  attribute \<open>start_id = 1\<close>, the connectivity dataset of the one element block has
  \<open>start_id = 1 + N\<close>, and the top-level group carries \<open>max_id = 1 + N + M\<close> stored
  with the unsigned 64-bit type.
\<close>

theorem write_global_ids:
  assumes "shape points = N # ps"
    and "shape cells = M # w # cs" and "entries cells = Ints xs"
    and "w = 2 \<or> w = 3 \<or> w = 4"
    and "point_tags_ok (dict_items point_data)"
    and "valid_tags (dict_items cell_data)"
    and "1 + int N + int M < 2 ^ 63"
  shows "\<exists>f dset children nodes coordinates elements name block conn.
           write_h5m version now points cells point_data cell_data = Inr f \<and>
           h5_get f ''tstt'' = Inr dset \<and>
           h5_get dset ''nodes'' = Inr nodes \<and>
           h5_get nodes ''coordinates'' = Inr coordinates \<and>
           h5_attr coordinates ''start_id'' = Inr 1 \<and>
           h5_get dset ''elements'' = Inr elements \<and>
           h5_items elements = Inr [(name, block)] \<and>
           h5_get block ''connectivity'' = Inr conn \<and>
           h5_attr conn ''start_id'' = Inr (1 + int N) \<and>
           dset = Group [(''max_id'', (Plain ''uint64'', 1 + int N + int M))] children"
proof -
  from assms(4) obtain name code where t: "h5m_type w = Some (name, code)"
    by (auto simp: h5m_type_def)
  from write_h5m_result [OF assms(1,2,3) t assms(5,6,7), of version now]
  obtain f where w: "write_h5m version now points cells point_data cell_data = Inr f"
    and f: "\<exists>node_tags tstt_tags elem_tags. f = Group []
         [(''tstt'', Group [(''max_id'', (Plain ''uint64'', 1 + int N + int M))]
            [(''nodes'', Group []
                ((''coordinates'',
                  Dataset [(''start_id'', (Plain ''int64'', 1))]
                    (Plain (dtype points)) (shape points) (entries points)) # node_tags)),
             (''tags'', Group [] tstt_tags),
             (''elements'', Group []
                [(name, Group [(''element_type'', (elem_dt, code))]
                   ((''connectivity'',
                     Dataset [(''start_id'', (Plain ''int64'', 1 + int N))]
                       (Plain (dtype cells)) (shape cells) (Ints (map (\<lambda>x. x + 1) xs))) # elem_tags))]),
             (''elemtypes'', NamedType elem_dt),
             (''history'',
              Dataset [] (Plain ''str'') [3] (Texts [''meshio.h5m_io'', version, now])),
             (''sets'', Group [] [(''tags'', Group [] [])])])]"
    by blast
  from f show ?thesis
    unfolding w by (auto simp: h5_get_def h5_attr_def h5_items_def)
qed

theorem write_global_ids_witness:
  "shape ex_points = 3 # [3] \<and> shape ex_tri = 1 # 3 # [] \<and> entries ex_tri = Ints [0, 1, 2] \<and>
   point_tags_ok (dict_items (Some ex_point_data)) \<and>
   valid_tags (dict_items (Some ex_cell_data)) \<and>
   (\<exists>f dset children nodes coordinates elements name block conn.
           write_h5m ''1.0'' ''now'' ex_points ex_tri (Some ex_point_data) (Some ex_cell_data) = Inr f \<and>
           h5_get f ''tstt'' = Inr dset \<and>
           h5_get dset ''nodes'' = Inr nodes \<and>
           h5_get nodes ''coordinates'' = Inr coordinates \<and>
           h5_attr coordinates ''start_id'' = Inr 1 \<and>
           h5_get dset ''elements'' = Inr elements \<and>
           h5_items elements = Inr [(name, block)] \<and>
           h5_get block ''connectivity'' = Inr conn \<and>
           h5_attr conn ''start_id'' = Inr 4 \<and>
           dset = Group [(''max_id'', (Plain ''uint64'', 5))] children)"
proof -
  have h: "shape ex_points = 3 # [3]" "shape ex_tri = 1 # 3 # []" "entries ex_tri = Ints [0, 1, 2]"
    "(3::nat) = 2 \<or> (3::nat) = 3 \<or> (3::nat) = 4"
    by (simp_all add: ex_points_def ex_tri_def)
  have b: "1 + int 3 + int 1 < 2 ^ 63" by simp
  have e: "1 + int 3 = 4" "4 + int 1 = 5" by simp_all
  from write_global_ids [OF h ex_point_data_ok ex_cell_data_ok b, of "''1.0''" "''now''"]
  have "\<exists>f dset children nodes coordinates elements name block conn.
           write_h5m ''1.0'' ''now'' ex_points ex_tri (Some ex_point_data) (Some ex_cell_data) = Inr f \<and>
           h5_get f ''tstt'' = Inr dset \<and>
           h5_get dset ''nodes'' = Inr nodes \<and>
           h5_get nodes ''coordinates'' = Inr coordinates \<and>
           h5_attr coordinates ''start_id'' = Inr 1 \<and>
           h5_get dset ''elements'' = Inr elements \<and>
           h5_items elements = Inr [(name, block)] \<and>
           h5_get block ''connectivity'' = Inr conn \<and>
           h5_attr conn ''start_id'' = Inr 4 \<and>
           dset = Group [(''max_id'', (Plain ''uint64'', 5))] children"
    by (simp only: e)
  with h(1,2,3) ex_point_data_ok ex_cell_data_ok show ?thesis by blast
qed

lemma write_h5m_Inr_width:
  assumes "write_h5m version now points cells point_data cell_data = Inr f"
    and "shape cells = M # w # cs"
  shows "\<exists>name code node_tags ta g block_rest rest.
           h5m_lookup w = Inr (name, code) \<and>
           f = Group [] [(''tstt'', Group ta
                 ((''nodes'', node_tags) # (''tags'', g) #
                  (''elements'', Group [] [(name, Group [(''element_type'', (elem_dt, code))] block_rest)]) # rest))]"
  using assms
  by (auto simp: write_h5m_def and_then_eq_Inr np_shape1_def split: prod.splits)

text \<open>
  C4. The block name and the element type code depend on the row width \<open>w\<close> of the
  cells alone: 2 gives \<open>Edge2\<close> and 1, 3 gives \<open>Tri3\<close> and 2, 4 gives \<open>Tet4\<close> and 5, and
  whenever the writer succeeds the elements group holds exactly the block of that name
  with that code as its \<open>element_type\<close>. For every other width the writer fails; when the
  points have a length and the point tags were written, the failure is the key error of
  the table lookup for \<open>w\<close>.
\<close>

theorem write_element_block:
  assumes "shape cells = M # w # cs"
  shows "(w = 2 \<longrightarrow> h5m_lookup w = Inr (''Edge2'', 1)) \<and>
         (w = 3 \<longrightarrow> h5m_lookup w = Inr (''Tri3'', 2)) \<and>
         (w = 4 \<longrightarrow> h5m_lookup w = Inr (''Tet4'', 5)) \<and>
         (\<forall>f. write_h5m version now points cells point_data cell_data = Inr f \<longrightarrow>
            (\<exists>name code dset block_rest.
               h5m_lookup w = Inr (name, code) \<and> h5_get f ''tstt'' = Inr dset \<and>
               h5_get dset ''elements'' =
                 Inr (Group [] [(name, Group [(''element_type'', (elem_dt, code))] block_rest)]))) \<and>
         (w \<noteq> 2 \<and> w \<noteq> 3 \<and> w \<noteq> 4 \<longrightarrow>
            (\<exists>e. write_h5m version now points cells point_data cell_data = Inl e) \<and>
            (\<forall>n t. np_len points = Inr n \<and> write_point_data point_data = Inr t \<longrightarrow>
               write_h5m version now points cells point_data cell_data = Inl (KeyErrorNum w)))"
proof -
  have 1: "\<exists>name code dset block_rest.
               h5m_lookup w = Inr (name, code) \<and> h5_get f ''tstt'' = Inr dset \<and>
               h5_get dset ''elements'' =
                 Inr (Group [] [(name, Group [(''element_type'', (elem_dt, code))] block_rest)])"
    if "write_h5m version now points cells point_data cell_data = Inr f" for f
    using write_h5m_Inr_width [OF that assms] by (auto simp: h5_get_def)
  have 2: "\<exists>e. write_h5m version now points cells point_data cell_data = Inl e"
    if "w \<noteq> 2 \<and> w \<noteq> 3 \<and> w \<noteq> 4"
  proof (cases "write_h5m version now points cells point_data cell_data")
    case (Inl e)
    then show ?thesis by blast
  next
    case (Inr f)
    from write_h5m_Inr_width [OF Inr assms] that show ?thesis
      by (auto simp: h5m_lookup_def h5m_type_def split: if_splits)
  qed
  have 3: "write_h5m version now points cells point_data cell_data = Inl (KeyErrorNum w)"
    if "w \<noteq> 2 \<and> w \<noteq> 3 \<and> w \<noteq> 4" "np_len points = Inr n" "write_point_data point_data = Inr t"
    for n t
    using that assms
    by (cases t) (simp add: write_h5m_def attr_native_def np_shape1_def h5m_lookup_def h5m_type_def)
  show ?thesis
    using 1 2 3 by (simp add: h5m_lookup_def h5m_type_def)
qed

theorem write_element_block_witness:
  "shape ex_five = 1 # 5 # [] \<and> shape ex_tri = 1 # 3 # [] \<and> np_len ex_points = Inr 3 \<and>
   write_point_data (None :: (string \<times> nat ndarray) list option) = Inr ([], []) \<and>
   write_h5m ''1.0'' ''now'' ex_points ex_five None None = Inl (KeyErrorNum 5) \<and>
   h5m_lookup 3 = Inr (''Tri3'', 2) \<and>
   (\<exists>f dset block_rest. write_h5m ''1.0'' ''now'' ex_points ex_tri None None = Inr f \<and>
      h5_get f ''tstt'' = Inr dset \<and>
      h5_get dset ''elements'' =
        Inr (Group [] [(''Tri3'', Group [(''element_type'', (elem_dt, 2))] block_rest)]))"
proof -
  have s: "shape ex_five = 1 # 5 # []" "shape ex_tri = 1 # 3 # []"
    by (simp_all add: ex_five_def ex_tri_def)
  have p: "np_len ex_points = Inr 3"
    "write_point_data (None :: (string \<times> nat ndarray) list option) = Inr ([], [])"
    by (simp_all add: np_len_def ex_points_def write_point_data_def)
  have five: "write_h5m ''1.0'' ''now'' ex_points ex_five None None = Inl (KeyErrorNum 5)"
    using write_element_block [OF s(1), of "''1.0''" "''now''" ex_points None None] p by simp
  obtain f where f: "write_h5m ''1.0'' ''now'' ex_points ex_tri None None = Inr f"
    by (simp add: write_h5m_def attr_native_def np_len_def write_point_data_def np_shape1_def
        h5m_lookup_def h5m_type_def np_add_def write_cell_data_def attr_u8_def ex_points_def
        ex_tri_def)
  have tri: "h5m_lookup 3 = Inr (''Tri3'', 2)"
    using write_element_block [OF s(2), of "''1.0''" "''now''" ex_points None None] by simp
  from write_element_block [OF s(2), of "''1.0''" "''now''" ex_points None None] f tri
  have "\<exists>dset block_rest. h5_get f ''tstt'' = Inr dset \<and>
      h5_get dset ''elements'' =
        Inr (Group [] [(''Tri3'', Group [(''element_type'', (elem_dt, 2))] block_rest)])"
    by auto
  with f s p five tri show ?thesis by blast
qed

text \<open>
  C10. For every mesh whose cells have row width 2 the writer succeeds and the elements
  group of the container holds the single block \<open>Edge2\<close>; reading that container fails
  with the error \<open>Need Tri3s or Tet4s.\<close>
\<close>

theorem edge_mesh_not_readable:
  assumes "shape points = N # ps"
    and "shape cells = M # 2 # cs" and "entries cells = Ints xs"
    and "point_tags_ok (dict_items point_data)"
    and "valid_tags (dict_items cell_data)"
    and "1 + int N + int M < 2 ^ 63"
  shows "\<exists>f dset elements block.
           write_h5m version now points cells point_data cell_data = Inr f \<and>
           h5_get f ''tstt'' = Inr dset \<and>
           h5_get dset ''elements'' = Inr elements \<and>
           h5_items elements = Inr [(''Edge2'', block)] \<and>
           read mem f = Inl (RuntimeError ''Need Tri3s or Tet4s.'')"
proof -
  have t: "h5m_type 2 = Some (''Edge2'', 1)" by (simp add: h5m_type_def)
  from write_h5m_result [OF assms(1,2,3) t assms(4,5,6), of version now]
  obtain node_tags tstt_tags elem_tags where
    w: "write_h5m version now points cells point_data cell_data =
      Inr (Group []
         [(''tstt'', Group [(''max_id'', (Plain ''uint64'', 1 + int N + int M))]
            [(''nodes'', Group []
                ((''coordinates'',
                  Dataset [(''start_id'', (Plain ''int64'', 1))]
                    (Plain (dtype points)) (shape points) (entries points)) # node_tags)),
             (''tags'', Group [] tstt_tags),
             (''elements'', Group []
                [(''Edge2'', Group [(''element_type'', (elem_dt, 1))]
                   ((''connectivity'',
                     Dataset [(''start_id'', (Plain ''int64'', 1 + int N))]
                       (Plain (dtype cells)) (shape cells) (Ints (map (\<lambda>x. x + 1) xs))) # elem_tags))]),
             (''elemtypes'', NamedType elem_dt),
             (''history'',
              Dataset [] (Plain ''str'') [3] (Texts [''meshio.h5m_io'', version, now])),
             (''sets'', Group [] [(''tags'', Group [] [])])])])"
    and p: "\<forall>a x. read_tag_group (Group a ((''coordinates'', x) # node_tags)) =
              Inr (dict_items point_data)"
    by blast
  show ?thesis
    unfolding w by (simp add: read_edge [OF p] h5_get_def h5_items_def)
qed

theorem edge_mesh_not_readable_witness:
  "shape ex_points = 3 # [3] \<and> shape ex_edge = 1 # 2 # [] \<and> entries ex_edge = Ints [0, 1] \<and>
   point_tags_ok (dict_items (Some ex_point_data)) \<and>
   valid_tags (dict_items (Some ex_cell_data)) \<and>
   (\<exists>f dset elements block.
      write_h5m ''1.0'' ''now'' ex_points ex_edge (Some ex_point_data) (Some ex_cell_data) = Inr f \<and>
      h5_get f ''tstt'' = Inr dset \<and>
      h5_get dset ''elements'' = Inr elements \<and>
      h5_items elements = Inr [(''Edge2'', block)] \<and>
      read mem0 f = Inl (RuntimeError ''Need Tri3s or Tet4s.''))"
proof -
  have h: "shape ex_points = 3 # [3]" "shape ex_edge = 1 # 2 # []" "entries ex_edge = Ints [0, 1]"
    by (simp_all add: ex_points_def ex_edge_def)
  have b: "1 + int 3 + int 1 < 2 ^ 63" by simp
  from edge_mesh_not_readable [OF h ex_point_data_ok ex_cell_data_ok b, of "''1.0''" "''now''" mem0]
  show ?thesis using h ex_point_data_ok ex_cell_data_ok by blast
qed

section \<open>Choosing the element block\<close>

lemma and_then_neq_Inl:
  assumes "m \<noteq> Inl e" and "\<And>x. m = Inr x \<Longrightarrow> f x \<noteq> Inl e"
  shows "and_then m f \<noteq> Inl e"
  using assms by (cases m) auto

lemma h5_get_not_runtime [simp]: "h5_get g name \<noteq> Inl (RuntimeError s)"
  by (simp add: h5_get_def split: h5node.splits option.splits)

lemma h5_contains_not_runtime [simp]: "h5_contains g name \<noteq> Inl (RuntimeError s)"
  by (simp add: h5_contains_def split: h5node.splits)

lemma h5_items_not_runtime [simp]: "h5_items g \<noteq> Inl (RuntimeError s)"
  by (simp add: h5_items_def split: h5node.splits)

lemma h5_read_not_runtime [simp]: "h5_read d \<noteq> Inl (RuntimeError s)"
  by (simp add: h5_read_def split: h5node.splits h5dtype.splits)

lemma h5_attr_not_runtime [simp]: "h5_attr d name \<noteq> Inl (RuntimeError s)"
  by (simp add: h5_attr_def split: option.splits prod.splits)

lemma np_not_runtime [simp]:
  "np_sub a c \<noteq> Inl (RuntimeError s)" "np_add a c \<noteq> Inl (RuntimeError s)"
  "np_len a \<noteq> Inl (RuntimeError s)" "int_vector a \<noteq> Inl (RuntimeError s)"
  "int_rows a \<noteq> Inl (RuntimeError s)" "gids_contiguous a x y \<noteq> Inl (RuntimeError s)"
  by (simp_all add: np_sub_def np_add_def np_len_def int_vector_def int_rows_def
      gids_contiguous_def split: elems.splits list.splits)

lemma row_get_not_runtime [simp]: "row_get row i \<noteq> Inl (RuntimeError s)"
  by (simp add: row_get_def)

lemma tag_value_not_runtime [simp]: "tag_value v k \<noteq> Inl (RuntimeError s)"
  by (simp add: tag_value_def split: h5node.splits h5dtype.splits list.splits elems.splits)

lemma read_tags_not_runtime [simp]: "read_tags items d \<noteq> Inl (RuntimeError s)"
  by (induction items d rule: read_tags.induct) (auto simp: and_then_eq_Inl)

lemma read_tag_group_not_runtime [simp]: "read_tag_group g \<noteq> Inl (RuntimeError s)"
  by (auto simp: read_tag_group_def and_then_eq_Inl split: if_splits)

lemma fancy_assign_not_runtime [simp]: "fancy_assign arr idx v \<noteq> Inl (RuntimeError s)"
  by (induction arr idx v rule: fancy_assign.induct)
     (auto simp: and_then_eq_Inl fancy_index_def split: if_splits)

lemma fill_runs_runtime:
  "fill_runs arr runs cs ce v = Inl (RuntimeError (c # s)) \<Longrightarrow> \<exists>s'. v = Inl (RuntimeError s')"
  by (induction arr runs cs ce v rule: fill_runs.induct)
     (auto simp: and_then_eq_Inl Let_def split: if_splits)

lemma decode_row_runtime:
  "decode_row contents cs ce v row e arr = Inl (RuntimeError (c # s)) \<Longrightarrow>
   \<exists>s'. v = Inl (RuntimeError s')"
  by (auto simp: decode_row_def Let_def and_then_eq_Inl split: if_splits
      dest: fill_runs_runtime)

lemma decode_rows_runtime:
  "decode_rows contents cs ce val k rows e arr = Inl (RuntimeError (c # s)) \<Longrightarrow>
   \<exists>k s'. val k = Inl (RuntimeError s')"
  by (induction contents cs ce val k rows e arr rule: decode_rows.induct)
     (auto simp: and_then_eq_Inl dest!: decode_row_runtime)

lemma decode_sets_runtime:
  "decode_sets mem items sc sl cs ce cells cd \<noteq> Inl (RuntimeError (c # s))"
  by (induction mem items sc sl cs ce cells cd rule: decode_sets.induct)
     (auto simp: and_then_eq_Inl Let_def dest: decode_rows_runtime)

lemma read_sets_runtime:
  "read_sets mem sets elems conn cells cd \<noteq> Inl (RuntimeError (c # s))"
  by (auto simp: read_sets_def Let_def and_then_eq_Inl decode_sets_runtime split: if_splits)

lemma read_block_runtime:
  "read_block mem dset points pd elems \<noteq> Inl (RuntimeError (c # s))"
  by (auto simp: read_block_def and_then_eq_Inl read_sets_runtime split: if_splits)

lemma select_block_Group:
  "select_block (Group ea blocks) =
     (case map_of blocks ''Tri3'' of
        Some tri \<Rightarrow> Inr tri
      | None \<Rightarrow> (case map_of blocks ''Tet4'' of
           Some tet \<Rightarrow> Inr tet
         | None \<Rightarrow> Inl (RuntimeError ''Need Tri3s or Tet4s.'')))"
proof -
  have m: "name \<in> set (map fst blocks) \<longleftrightarrow> map_of blocks name \<noteq> None" for name
    by (simp add: map_of_eq_None_iff)
  show ?thesis
    by (simp add: select_block_def h5_contains_def h5_get_def m del: set_map split: option.splits)
qed

text \<open>
  C3. For every container in which \<open>read\<close> reaches the elements group (the coordinates
  and the point tags are read), the element block is the child \<open>Tri3\<close> if the group has
  one, else the child \<open>Tet4\<close> if it has one; and \<open>read\<close> fails with the error
  \<open>Need Tri3s or Tet4s.\<close> if and only if the group has neither child.
\<close>

theorem read_selects_block:
  assumes "h5_get f ''tstt'' = Inr dset"
    and "h5_get dset ''nodes'' = Inr nodes"
    and "h5_get nodes ''coordinates'' = Inr coordinates"
    and "h5_read coordinates = Inr points"
    and "read_tag_group nodes = Inr point_data"
    and "h5_get dset ''elements'' = Inr (Group ea blocks)"
  shows "read mem f =
           (case map_of blocks ''Tri3'' of
              Some tri \<Rightarrow> read_block mem dset points point_data tri
            | None \<Rightarrow> (case map_of blocks ''Tet4'' of
                 Some tet \<Rightarrow> read_block mem dset points point_data tet
               | None \<Rightarrow> Inl (RuntimeError ''Need Tri3s or Tet4s.''))) \<and>
         (read mem f = Inl (RuntimeError ''Need Tri3s or Tet4s.'') \<longleftrightarrow>
            ''Tri3'' \<notin> set (map fst blocks) \<and> ''Tet4'' \<notin> set (map fst blocks))"
proof -
  have r: "read mem f =
           (case map_of blocks ''Tri3'' of
              Some tri \<Rightarrow> read_block mem dset points point_data tri
            | None \<Rightarrow> (case map_of blocks ''Tet4'' of
                 Some tet \<Rightarrow> read_block mem dset points point_data tet
               | None \<Rightarrow> Inl (RuntimeError ''Need Tri3s or Tet4s.'')))"
    by (simp add: read_def assms select_block_Group split: option.splits)
  have n: "read_block mem dset points point_data b \<noteq> Inl (RuntimeError ''Need Tri3s or Tet4s.'')"
    for b
    by (rule read_block_runtime)
  have "read mem f = Inl (RuntimeError ''Need Tri3s or Tet4s.'') \<longleftrightarrow>
          map_of blocks ''Tri3'' = None \<and> map_of blocks ''Tet4'' = None"
    unfolding r using n by (auto split: option.splits)
  then show ?thesis
    using r by (simp add: map_of_eq_None_iff)
qed


lemma ex_nodes_read:
  "h5_get ex_nodes ''coordinates'' = Inr ex_coordinates" "h5_read ex_coordinates = Inr ex_points"
  "read_tag_group ex_nodes = Inr []"
  by (simp_all add: ex_nodes_def ex_coordinates_def ex_points_def h5_get_def h5_read_def
      read_tag_group_def h5_contains_def)

theorem read_selects_block_witness:
  "h5_get ex_both ''tstt'' = Inr ex_both_tstt \<and>
   h5_get ex_both_tstt ''nodes'' = Inr ex_nodes \<and>
   h5_get ex_nodes ''coordinates'' = Inr ex_coordinates \<and>
   h5_read ex_coordinates = Inr ex_points \<and>
   read_tag_group ex_nodes = Inr [] \<and>
   h5_get ex_both_tstt ''elements'' =
     Inr (Group [] [(''Tet4'', ex_tet_block), (''Tri3'', ex_tri_block)]) \<and>
   read mem0 ex_both = read_block mem0 ex_both_tstt ex_points [] ex_tri_block \<and>
   read mem0 ex_both \<noteq> Inl (RuntimeError ''Need Tri3s or Tet4s.'')"
proof -
  have h: "h5_get ex_both ''tstt'' = Inr ex_both_tstt"
    "h5_get ex_both_tstt ''nodes'' = Inr ex_nodes"
    "h5_get ex_both_tstt ''elements'' =
       Inr (Group [] [(''Tet4'', ex_tet_block), (''Tri3'', ex_tri_block)])"
    by (simp_all add: ex_both_def ex_both_tstt_def h5_get_def)
  note t = read_selects_block [OF h(1,2) ex_nodes_read h(3), of mem0]
  from t have t': "read mem0 ex_both = read_block mem0 ex_both_tstt ex_points [] ex_tri_block \<and>
      read mem0 ex_both \<noteq> Inl (RuntimeError ''Need Tri3s or Tet4s.'')"
    by auto
  from t' have a: "read mem0 ex_both = read_block mem0 ex_both_tstt ex_points [] ex_tri_block"
    by (rule conjunct1)
  from t' have b: "read mem0 ex_both \<noteq> Inl (RuntimeError ''Need Tri3s or Tet4s.'')"
    by (rule conjunct2)
  from h ex_nodes_read a b show ?thesis by blast
qed

section \<open>The assertion on the global IDs\<close>







section \<open>Decoding the sets\<close>


lemma length_slice_assign [simp]: "length (slice_assign arr i0 i1 x) = length arr"
  by (simp add: slice_assign_def Let_def)



lemma length_fancy_assign:
  "fancy_assign arr idx x = Inr arr' \<Longrightarrow> length arr' = length arr"
  by (induction arr idx x arbitrary: arr' rule: fancy_assign.induct)
     (auto simp: and_then_eq_Inr)











lemma length_numpy_empty [simp]: "length (numpy_empty mem key n) = n"
  by (simp add: numpy_empty_def)

lemma nth_numpy_empty [simp]: "j < n \<Longrightarrow> numpy_empty mem key n ! j = mem key j"
  by (simp add: numpy_empty_def)



text \<open>
  C8. A set row that names a global ID outside the block's range should make \<open>read\<close>
  fail. It does for a range-compressed row (\<open>ex_point_run\<close>, the run from global ID 3,
  raises the runtime error), but not for an explicit row: in \<open>ex_point_set\<close> the row
  lists global ID 3, the third point; the block starts at global ID 4, the index
  \<open>3 - 4 = -1\<close> counts from the end, and \<open>read\<close> returns with the value 9 assigned to
  the last cell.
\<close>

theorem point_gid_in_explicit_row:
  "read mem0 ex_point_set =
     Inr \<lparr>m_points = ex_points,
          m_cells = NDArray ''int64'' [4, 3] (Ints [0, 1, 2, 0, 1, 2, 0, 1, 2, 0, 1, 2]),
          m_point_data = [],
          m_cell_data =
            [(''GLOBAL_ID'', NDArray ''int64'' [4] (Ints [0, 1, 2, 3])),
             (''set::P'', NDArray ''int64'' [4] (Ints [0, 0, 0, 9]))],
          m_field_data = []\<rparr> \<and>
   read mem0 ex_point_run = Inl (RuntimeError [])"
  by code_simp








end
